theory Spec2Isabelle
  imports Complex_Main "HOL-Library.Log_Nat"
begin

section \<open>Data model\<close>

text \<open>
  The embedding follows \<^verbatim>\<open>src/apteryx_transformers/models/autoencoders.py\<close>.

  A torch parameter is an object with a mutable \<^verbatim>\<open>requires_grad\<close> attribute. Parameters
  are named by addresses, and the attribute lives in a store from addresses to booleans,
  so a parameter reached through two different module collections is one and the same
  cell. A layer is the list of parameters that \<^verbatim>\<open>layer.parameters()\<close> yields.
\<close>

type_synonym param = nat
type_synonym layer = "param list"
type_synonym grads = "param \<Rightarrow> bool"

text \<open>
  What \<^verbatim>\<open>__init__\<close> and \<^verbatim>\<open>toggle_layer_grad\<close> read from \<^verbatim>\<open>self.model\<close>:
  \<^verbatim>\<open>model.encoder.block\<close>, \<^verbatim>\<open>model.decoder.block\<close>, \<^verbatim>\<open>model.parameters()\<close> and
  \<^verbatim>\<open>model.base_model.encoder.layer\<close>. The model class belongs to the external model
  library, so whether the last attribute chain exists is a property of the model that is
  passed in: \<open>None\<close> stands for a chain that raises \<^verbatim>\<open>AttributeError\<close>.
\<close>

record torch_model =
  encoder_block :: "layer list"
  decoder_block :: "layer list"
  base_model_encoder_layer :: "layer list option"
  parameters :: "param list"

text \<open>
  The argument \<^verbatim>\<open>n_layers_to_train: Union[tuple, int]\<close>: a pair of integers, one integer,
  or anything else (\<^verbatim>\<open>None\<close>, for instance), which the constructor sends to its last
  branch.
\<close>

datatype layers_spec = SpecTuple int int | SpecInt int | SpecNone

datatype error = AssertionError | AttributeError | TypeError | OverflowError | ValueError

text \<open>
  A computation on the store either returns the new store (\<open>Inr\<close>) or raises (\<open>Inl\<close>);
  a raise carries the store as it is at that moment, because the loops write into it before
  a later statement fails.
\<close>

type_synonym outcome = "(error \<times> grads) + grads"

definition final_grads :: "outcome \<Rightarrow> grads" where
  "final_grads r = (case r of Inl (e, g) \<Rightarrow> g | Inr g \<Rightarrow> g)"

text \<open>Python slices \<^verbatim>\<open>xs[:k]\<close> and \<^verbatim>\<open>xs[k:]\<close> for an integer \<open>k\<close> of either sign.\<close>

definition slice_to :: "'a list \<Rightarrow> int \<Rightarrow> 'a list" where
  "slice_to xs k =
     (if k < 0 then take (nat (int (length xs) + k)) xs else take (nat k) xs)"

definition slice_from :: "'a list \<Rightarrow> int \<Rightarrow> 'a list" where
  "slice_from xs k =
     (if k < 0 then drop (nat (int (length xs) + k)) xs else drop (nat k) xs)"

section \<open>The layer selector\<close>

text \<open>
  \<^verbatim>\<open>for p in layer.parameters(): p.requires_grad = v\<close>, and the same loop nested in
  \<^verbatim>\<open>for layer in layers\<close>. The \<^verbatim>\<open>print\<close> calls and the counter \<^verbatim>\<open>layer_acc\<close>, which only
  feeds them, are left out.
\<close>

fun set_requires_grad :: "bool \<Rightarrow> param list \<Rightarrow> grads \<Rightarrow> grads" where
  "set_requires_grad v [] g = g"
| "set_requires_grad v (p # ps) g = set_requires_grad v ps (g(p := v))"

fun set_layers :: "bool \<Rightarrow> layer list \<Rightarrow> grads \<Rightarrow> grads" where
  "set_layers v [] g = g"
| "set_layers v (l # ls) g = set_layers v ls (set_requires_grad v l g)"

text \<open>
  \<^verbatim>\<open>toggle_layer_grad(self, module, n_to_train, layer_acc=0)\<close>. Of \<^verbatim>\<open>self\<close> it reads
  \<^verbatim>\<open>self.model\<close> and \<^verbatim>\<open>self.n_layers_to_train\<close>, the first two arguments here. The second
  loop iterates over \<^verbatim>\<open>self.model.base_model.encoder.layer[-self.n_layers_to_train:]\<close>:
  the attribute chain is evaluated first, then the unary minus, which raises
  \<^verbatim>\<open>TypeError\<close> on a tuple and on \<^verbatim>\<open>None\<close>.
\<close>

definition toggle_layer_grad ::
  "torch_model \<Rightarrow> layers_spec \<Rightarrow> layer list \<Rightarrow> int \<Rightarrow> grads \<Rightarrow> outcome" where
  "toggle_layer_grad model n_layers_to_train module_list n_to_train g =
     (let n_layers = int (length module_list);
          n = (if n_to_train = - 1 then n_layers else n_to_train)
      in if n > 0 then
           (let g1 = set_layers False (slice_to module_list (- n)) g
            in case base_model_encoder_layer model of
                 None \<Rightarrow> Inl (AttributeError, g1)
               | Some layers \<Rightarrow>
                   (case n_layers_to_train of
                      SpecInt k \<Rightarrow> Inr (set_layers True (slice_from layers (- k)) g1)
                    | SpecTuple a b \<Rightarrow> Inl (TypeError, g1)
                    | SpecNone \<Rightarrow> Inl (TypeError, g1)))
         else Inr g)"

text \<open>
  Lines 45 to 69 of \<^verbatim>\<open>AbstractTransformerAutoencoder.__init__\<close>: the layer counts, the
  three branches on \<^verbatim>\<open>n_layers_to_train\<close>, the assertions (taken as enabled) and the two
  calls of \<^verbatim>\<open>toggle_layer_grad\<close>, the encoder first.
\<close>

definition select_layers :: "torch_model \<Rightarrow> layers_spec \<Rightarrow> grads \<Rightarrow> outcome" where
  "select_layers model n_layers_to_train g =
     (let n_enc_layers = int (length (encoder_block model));
          n_dec_layers = int (length (decoder_block model));
          total_attn_layers = n_enc_layers + n_dec_layers
      in case n_layers_to_train of
           SpecTuple n_enc_to_train n_dec_to_train \<Rightarrow>
             if \<not> n_enc_to_train \<le> n_enc_layers then Inl (AssertionError, g)
             else if \<not> n_dec_to_train \<le> n_dec_layers then Inl (AssertionError, g)
             else
               (case toggle_layer_grad model n_layers_to_train
                       (encoder_block model) n_enc_to_train g of
                  Inl e \<Rightarrow> Inl e
                | Inr g1 \<Rightarrow>
                    toggle_layer_grad model n_layers_to_train
                      (decoder_block model) n_dec_to_train g1)
         | SpecInt n \<Rightarrow>
             if n > 0 then
               if \<not> total_attn_layers \<ge> n then Inl (AssertionError, g)
               else
                 (let n_dec_to_train = (if n < n_dec_layers then n else n_dec_layers);
                      n_enc_to_train = max (n - n_dec_layers) 0
                  in case toggle_layer_grad model n_layers_to_train
                            (encoder_block model) n_enc_to_train g of
                       Inl e \<Rightarrow> Inl e
                     | Inr g1 \<Rightarrow>
                         toggle_layer_grad model n_layers_to_train
                           (decoder_block model) n_dec_to_train g1)
             else Inr (set_requires_grad False (parameters model) g)
         | SpecNone \<Rightarrow> Inr (set_requires_grad False (parameters model) g))"

section \<open>Construction\<close>

text \<open>
  Python values that the constructors only receive, store and hand on. A finite float is
  the real number it denotes; \<open>PyInf\<close> is \<^verbatim>\<open>np.inf\<close>. No arithmetic is done on them here.
  A dictionary is the list of its items; its keys are values of any kind.
\<close>

datatype pyval =
    PyNone
  | PyBool bool
  | PyInt int
  | PyFloat real
  | PyInf
  | PyStr string
  | PyDict "(pyval \<times> pyval) list"

text \<open>
  The attributes \<^verbatim>\<open>__init__\<close> leaves on \<^verbatim>\<open>self\<close>. The configuration object is stood for by
  the keyword arguments it was built from. The tokenizer and the collator, which come from
  the external library and are not read again by the code modelled here, are left out.
\<close>

record autoencoder =
  self_model_name :: pyval
  self_block_size :: pyval
  self_n_layers_to_train :: layers_spec
  self_dataset :: pyval
  self_config :: "(string \<times> pyval) list"
  self_model :: torch_model
  self_training_args :: pyval
  self_train_pct :: pyval

text \<open>
  The expansion \<^verbatim>\<open>**d\<close> of a dictionary into keyword arguments: every key must be a
  string, otherwise the call raises \<^verbatim>\<open>TypeError\<close> (\<open>None\<close> here).
\<close>

fun keyword_items :: "(pyval \<times> pyval) list \<Rightarrow> (string \<times> pyval) list option" where
  "keyword_items [] = Some []"
| "keyword_items ((k, v) # items) =
     (case k of
        PyStr name \<Rightarrow>
          (case keyword_items items of None \<Rightarrow> None | Some kws \<Rightarrow> Some ((name, v) # kws))
      | PyNone \<Rightarrow> None
      | PyBool b \<Rightarrow> None
      | PyInt i \<Rightarrow> None
      | PyFloat x \<Rightarrow> None
      | PyInf \<Rightarrow> None
      | PyDict d \<Rightarrow> None)"

text \<open>The dictionary item of a keyword argument.\<close>

definition str_key :: "string \<times> pyval \<Rightarrow> pyval \<times> pyval" where
  "str_key kw = (PyStr (fst kw), snd kw)"

text \<open>
  \<^verbatim>\<open>AbstractTransformerAutoencoder.__init__\<close>, with its parameters in the order of the
  source. \<open>get_model\<close> stands for
  \<^verbatim>\<open>self.get_model_class()(config=self.get_config_class()(**kwargs))\<close>, the model the
  external library builds from the configuration keywords, and \<open>g\<close> is the store with the
  flags of that fresh model. The expansion \<^verbatim>\<open>**model_config_dict\<close> raises \<^verbatim>\<open>TypeError\<close>
  unless the value is a mapping with string keys. The calls into the external library (loading the
  tokenizer before the expansion, building the configuration and the model after it) are
  taken to return.
\<close>

definition AbstractTransformerAutoencoder_init ::
  "((string \<times> pyval) list \<Rightarrow> torch_model) \<Rightarrow> pyval \<Rightarrow> pyval \<Rightarrow> pyval \<Rightarrow> pyval \<Rightarrow> pyval \<Rightarrow>
     pyval \<Rightarrow> layers_spec \<Rightarrow> grads \<Rightarrow> (error \<times> grads) + (autoencoder \<times> grads)" where
  "AbstractTransformerAutoencoder_init get_model dataset model_name model_config_dict
       training_args_dict block_size train_pct n_layers_to_train g =
     (case model_config_dict of
        PyDict items \<Rightarrow>
          (case keyword_items items of
             None \<Rightarrow> Inl (TypeError, g)
           | Some kwargs \<Rightarrow>
               (case select_layers (get_model kwargs) n_layers_to_train g of
                  Inl e \<Rightarrow> Inl e
                | Inr g' \<Rightarrow>
                    Inr (\<lparr> self_model_name = model_name,
                            self_block_size = block_size,
                            self_n_layers_to_train = n_layers_to_train,
                            self_dataset = dataset,
                            self_config = kwargs,
                            self_model = get_model kwargs,
                            self_training_args = training_args_dict,
                            self_train_pct = train_pct \<rparr>, g')))
      | PyNone \<Rightarrow> Inl (TypeError, g)
      | PyBool b \<Rightarrow> Inl (TypeError, g)
      | PyInt i \<Rightarrow> Inl (TypeError, g)
      | PyFloat x \<Rightarrow> Inl (TypeError, g)
      | PyInf \<Rightarrow> Inl (TypeError, g)
      | PyStr s \<Rightarrow> Inl (TypeError, g))"

text \<open>
  \<^verbatim>\<open>T5Autoencoder.__init__\<close>: the call
  \<^verbatim>\<open>super().__init__(data_dir, model_name, block_size, training_args_dict, ds_limit,
  train_pct=train_pct, n_layers_to_train=n_layers_to_train)\<close>, the first five arguments
  by position.
\<close>

definition T5Autoencoder_init ::
  "((string \<times> pyval) list \<Rightarrow> torch_model) \<Rightarrow> pyval \<Rightarrow> pyval \<Rightarrow> pyval \<Rightarrow> pyval \<Rightarrow> pyval \<Rightarrow>
     pyval \<Rightarrow> layers_spec \<Rightarrow> grads \<Rightarrow> (error \<times> grads) + (autoencoder \<times> grads)" where
  "T5Autoencoder_init get_model data_dir model_name block_size training_args_dict ds_limit
       train_pct n_layers_to_train g =
     AbstractTransformerAutoencoder_init get_model data_dir model_name block_size
       training_args_dict ds_limit train_pct n_layers_to_train g"

text \<open>
  \<^verbatim>\<open>T5Autoencoder(data_dir)\<close> with every default of the signature:
  \<^verbatim>\<open>model_name='t5-base', block_size=1024, training_args_dict=None, ds_limit=np.inf,
  train_pct=0.8, n_layers_to_train=(-1, -1)\<close>. The float is the binary64 value of the
  literal \<^verbatim>\<open>0.8\<close>.
\<close>

definition T5Autoencoder_default ::
  "((string \<times> pyval) list \<Rightarrow> torch_model) \<Rightarrow> pyval \<Rightarrow> grads \<Rightarrow>
     (error \<times> grads) + (autoencoder \<times> grads)" where
  "T5Autoencoder_default get_model data_dir g =
     T5Autoencoder_init get_model data_dir (PyStr ''t5-base'') (PyInt 1024) PyNone PyInf
       (PyFloat (3602879701896397 / 4503599627370496)) (SpecTuple (- 1) (- 1)) g"

section \<open>Training arguments\<close>

text \<open>
  The part of \<^verbatim>\<open>get_trainer\<close> that builds the training arguments (lines 101 to 123). The
  \<^verbatim>\<open>TrainingArguments\<close> object built from the fixed keywords is a value of the external
  library. What the loop needs of it: the attributes it holds, and the names its class
  defines as properties without a setter (\<^verbatim>\<open>n_gpu\<close>, \<^verbatim>\<open>device\<close>, \<^verbatim>\<open>train_batch_size\<close> and
  others on the library's class), which cannot be assigned.
\<close>

record training_arguments =
  attributes :: "string \<rightharpoonup> pyval"
  read_only :: "string list"

definition truthy :: "pyval \<Rightarrow> bool" where
  "truthy v =
     (case v of
        PyNone \<Rightarrow> False
      | PyBool b \<Rightarrow> b
      | PyInt i \<Rightarrow> i \<noteq> 0
      | PyFloat x \<Rightarrow> x \<noteq> 0
      | PyInf \<Rightarrow> True
      | PyStr s \<Rightarrow> s \<noteq> []
      | PyDict kvs \<Rightarrow> kvs \<noteq> [])"

text \<open>
  Python's \<^verbatim>\<open>setattr(obj, k, v)\<close>: \<^verbatim>\<open>TypeError\<close> when the name is not a string,
  \<^verbatim>\<open>AttributeError\<close> when it names a property without a setter, and otherwise the
  attribute is stored, whether the object had it before or not.
\<close>

definition setattr :: "training_arguments \<Rightarrow> pyval \<Rightarrow> pyval \<Rightarrow> error + training_arguments" where
  "setattr obj k v =
     (case k of
        PyStr name \<Rightarrow>
          if name \<in> set (read_only obj) then Inl AttributeError
          else Inr (obj \<lparr> attributes := (attributes obj)(name \<mapsto> v) \<rparr>)
      | PyNone \<Rightarrow> Inl TypeError
      | PyBool b \<Rightarrow> Inl TypeError
      | PyInt i \<Rightarrow> Inl TypeError
      | PyFloat x \<Rightarrow> Inl TypeError
      | PyInf \<Rightarrow> Inl TypeError
      | PyDict d \<Rightarrow> Inl TypeError)"

text \<open>
  \<^verbatim>\<open>for k, v in self.training_args.items(): setattr(default_training_args, k, v)\<close>; the
  loop ends at the first \<^verbatim>\<open>setattr\<close> that raises.
\<close>

fun update_training_args ::
  "training_arguments \<Rightarrow> (pyval \<times> pyval) list \<Rightarrow> error + training_arguments" where
  "update_training_args default_training_args [] = Inr default_training_args"
| "update_training_args default_training_args ((k, v) # items) =
     (case setattr default_training_args k v of
        Inl e \<Rightarrow> Inl e
      | Inr updated \<Rightarrow> update_training_args updated items)"

text \<open>
  \<^verbatim>\<open>if self.training_args:\<close> skips \<^verbatim>\<open>None\<close> and the empty dictionary; a value that is
  true and has no \<^verbatim>\<open>items\<close> method raises \<^verbatim>\<open>AttributeError\<close>.
\<close>

definition get_trainer_training_args ::
  "training_arguments \<Rightarrow> pyval \<Rightarrow> error + training_arguments" where
  "get_trainer_training_args default_training_args training_args =
     (if truthy training_args then
        (case training_args of
           PyDict items \<Rightarrow> update_training_args default_training_args items
         | PyNone \<Rightarrow> Inl AttributeError
         | PyBool b \<Rightarrow> Inl AttributeError
         | PyInt i \<Rightarrow> Inl AttributeError
         | PyFloat x \<Rightarrow> Inl AttributeError
         | PyInf \<Rightarrow> Inl AttributeError
         | PyStr s \<Rightarrow> Inl AttributeError)
      else Inr default_training_args)"


section \<open>Splitting the dataset\<close>

text \<open>
  Lines 125 to 130 of \<^verbatim>\<open>get_trainer\<close>. \<^verbatim>\<open>N * self.train_pct\<close> is a product of binary64
  numbers. A finite binary64 number that is not negative is \<open>mantissa * 2 ^ exponent\<close>
  with a mantissa below \<open>2 ^ 53\<close> and an exponent of at least \<open>-1074\<close>.
\<close>

record binary64 =
  mantissa :: nat
  exponent :: int

definition float_value :: "binary64 \<Rightarrow> real" where
  "float_value x = real (mantissa x) * 2 powi exponent x"

definition is_binary64 :: "binary64 \<Rightarrow> bool" where
  "is_binary64 x = (mantissa x < 2 ^ 53 \<and> - 1074 \<le> exponent x)"

text \<open>
  Rounding \<open>m * 2 ^ e\<close> to 53 significant bits, to nearest and on a tie to the even
  mantissa: the rounding of every binary64 operation whose result neither overflows nor
  falls below the grid of the subnormal numbers. A mantissa that rounds up to \<open>2 ^ 53\<close>
  is kept as it is; the number denoted is the same.
\<close>

definition round_to_nearest_even :: "nat \<Rightarrow> int \<Rightarrow> binary64" where
  "round_to_nearest_even m e =
     (let b = floorlog 2 m
      in if b \<le> 53 then \<lparr> mantissa = m, exponent = e \<rparr>
         else
           (let s = b - 53;
                q = m div 2 ^ s;
                r = m mod 2 ^ s;
                half = 2 ^ (s - 1);
                up = (if half < r then True else if r = half then odd q else False)
            in \<lparr> mantissa = (if up then q + 1 else q), exponent = e + int s \<rparr>))"

text \<open>A rounded result of \<open>2 ^ 1024\<close> or more is beyond the finite binary64 numbers.\<close>

definition overflows :: "binary64 \<Rightarrow> bool" where
  "overflows x = (if 0 \<le> exponent x then 2 ^ 1024 \<le> mantissa x * 2 ^ nat (exponent x) else False)"

text \<open>
  The conversion of a Python integer that is not negative to a float, as the product
  does with \<open>N\<close>: rounded, and \<^verbatim>\<open>OverflowError\<close> beyond the binary64 range.
\<close>

definition float_of_int :: "nat \<Rightarrow> error + binary64" where
  "float_of_int n =
     (let x = round_to_nearest_even n 0
      in if overflows x then Inl OverflowError else Inr x)"

definition float_mul :: "binary64 \<Rightarrow> binary64 \<Rightarrow> binary64" where
  "float_mul x y = round_to_nearest_even (mantissa x * mantissa y) (exponent x + exponent y)"

text \<open>\<^verbatim>\<open>int(x)\<close> for a float that is not negative: the fraction is cut off.\<close>

definition int_of_float :: "binary64 \<Rightarrow> nat" where
  "int_of_float x =
     (if 0 \<le> exponent x then mantissa x * 2 ^ nat (exponent x)
      else mantissa x div 2 ^ nat (- exponent x))"

text \<open>
  \<^verbatim>\<open>n_train = int(N * self.train_pct)\<close> and \<^verbatim>\<open>n_val = N - n_train\<close>, for a dataset of
  \<open>N\<close> examples and a fraction that is a binary64 number and not negative. A product
  beyond the finite numbers is infinite, and \<^verbatim>\<open>int\<close> of it raises \<^verbatim>\<open>OverflowError\<close>.
\<close>

definition split_sizes :: "nat \<Rightarrow> binary64 \<Rightarrow> error + (int \<times> int)" where
  "split_sizes N train_pct =
     (case float_of_int N of
        Inl e \<Rightarrow> Inl e
      | Inr x \<Rightarrow>
          (let product = float_mul x train_pct
           in if overflows product then Inl OverflowError
              else
                (let n_train = int (int_of_float product);
                     n_val = int N - n_train
                 in Inr (n_train, n_val))))"

text \<open>The Python slice \<^verbatim>\<open>xs[a:b]\<close>.\<close>

definition slice_between :: "'a list \<Rightarrow> int \<Rightarrow> int \<Rightarrow> 'a list" where
  "slice_between xs a b =
     (let n = int (length xs);
          a' = (if a < 0 then max (n + a) 0 else min a n);
          b' = (if b < 0 then max (n + b) 0 else min b n)
      in drop (nat a') (take (nat b') xs))"

text \<open>
  Modelled from the spec: \<^verbatim>\<open>torch.utils.data.random_split\<close> belongs to the external
  library and is not part of the sources; the spec asks it for a random partition without
  overlap into parts of the given sizes. The definition follows the library's documented
  behaviour for two integer lengths: \<^verbatim>\<open>ValueError\<close> unless the lengths sum to the size of
  the dataset, then a permutation of the indices is drawn and cut into consecutive runs,
  \<^verbatim>\<open>indices[offset - length : offset]\<close> with the offsets running over the partial sums.
  The permutation drawn is the argument \<open>indices\<close>; a part is the list of
  indices of its examples.
\<close>

definition random_split :: "nat \<Rightarrow> int \<times> int \<Rightarrow> nat list \<Rightarrow> error + (nat list \<times> nat list)" where
  "random_split N lengths indices =
     (case lengths of
        (l1, l2) \<Rightarrow>
          if l1 + l2 \<noteq> int N then Inl ValueError
          else Inr (slice_between indices (l1 - l1) l1,
                    slice_between indices (l1 + l2 - l2) (l1 + l2)))"

definition get_trainer_split :: "nat \<Rightarrow> binary64 \<Rightarrow> nat list \<Rightarrow> error + (nat list \<times> nat list)" where
  "get_trainer_split N train_pct indices =
     (case split_sizes N train_pct of
        Inl e \<Rightarrow> Inl e
      | Inr lengths \<Rightarrow> random_split N lengths indices)"

text \<open>
  The binary64 values of the literals \<^verbatim>\<open>0.7\<close>, \<^verbatim>\<open>0.8\<close> (the default of \<^verbatim>\<open>train_pct\<close>)
  and \<^verbatim>\<open>0.29\<close>.
\<close>

definition binary64_0_7 :: binary64 where
  "binary64_0_7 = \<lparr> mantissa = 6305039478318694, exponent = - 53 \<rparr>"

definition binary64_0_8 :: binary64 where
  "binary64_0_8 = \<lparr> mantissa = 7205759403792794, exponent = - 53 \<rparr>"

definition binary64_0_29 :: binary64 where
  "binary64_0_29 = \<lparr> mantissa = 5224175567749775, exponent = - 54 \<rparr>"

section \<open>Reading the store\<close>

definition trainable_layer :: "grads \<Rightarrow> layer \<Rightarrow> bool" where
  "trainable_layer g l = list_all g l"

definition frozen_layer :: "grads \<Rightarrow> layer \<Rightarrow> bool" where
  "frozen_layer g l = list_all (\<lambda>p. \<not> g p) l"

text \<open>
  Two facts about models of the external library that some statements below assume:
  \<^verbatim>\<open>model.parameters()\<close> reaches the parameters of every encoder and decoder layer, and
  every layer owns its parameters (no parameter sits in two layers, or twice in one).
\<close>

definition parameters_cover_layers :: "torch_model \<Rightarrow> bool" where
  "parameters_cover_layers m =
     (set (concat (encoder_block m @ decoder_block m)) \<subseteq> set (parameters m))"

definition layers_own_parameters :: "torch_model \<Rightarrow> bool" where
  "layers_own_parameters m = distinct (concat (encoder_block m @ decoder_block m))"

section \<open>Two small models\<close>

text \<open>
  A model shaped like \<^verbatim>\<open>T5ForConditionalGeneration\<close> with two encoder and three decoder
  layers of one parameter each; parameters 5 and 6 belong to no layer (an embedding and
  the head). As on the T5 classes, the stacks are called \<^verbatim>\<open>block\<close> and there is no
  \<^verbatim>\<open>encoder.layer\<close>.
\<close>

definition tiny_t5 :: torch_model where
  "tiny_t5 =
     \<lparr> encoder_block = [[0], [1]],
       decoder_block = [[2], [3], [4]],
       base_model_encoder_layer = None,
       parameters = [5, 0, 1, 2, 3, 4, 6] \<rparr>"

text \<open>
  The same layers on a model where \<^verbatim>\<open>base_model.encoder.layer\<close> exists and is the
  encoder stack.
\<close>

definition tiny_with_layer :: torch_model where
  "tiny_with_layer = tiny_t5 \<lparr> base_model_encoder_layer := Some [[0], [1]] \<rparr>"

text \<open>A fresh torch parameter has \<^verbatim>\<open>requires_grad = True\<close>.\<close>

definition requires_grad_default :: grads where
  "requires_grad_default = (\<lambda>p. True)"

definition all_frozen :: grads where
  "all_frozen = (\<lambda>p. False)"

section \<open>The loops, pointwise\<close>

lemma set_requires_grad_apply:
  "set_requires_grad v ps g p = (if p \<in> set ps then v else g p)"
  by (induction ps arbitrary: g) auto

lemma set_layers_apply:
  "set_layers v ls g p = (if p \<in> set (concat ls) then v else g p)"
  by (induction ls arbitrary: g) (auto simp: set_requires_grad_apply)

lemma toggle_layer_grad_noop:
  "n \<le> 0 \<Longrightarrow> n \<noteq> - 1 \<Longrightarrow> toggle_layer_grad m s ls n g = Inr g"
  by (simp add: toggle_layer_grad_def Let_def)

lemma toggle_layer_grad_tuple_frame:
  assumes "p \<notin> set (concat ls)"
  shows "final_grads (toggle_layer_grad m (SpecTuple a b) ls n g) p = g p"
proof -
  have "p \<notin> set (concat (slice_to ls k))" for k
    using assms by (auto simp: slice_to_def dest: in_set_takeD)
  then show ?thesis
    by (simp add: toggle_layer_grad_def Let_def final_grads_def set_layers_apply
        split: option.splits)
qed

lemma toggle_layer_grad_sentinel:
  "toggle_layer_grad m s ls (- 1) g = toggle_layer_grad m s ls (int (length ls)) g"
  by (simp add: toggle_layer_grad_def Let_def)

lemma toggle_layer_grad_no_assertion:
  "toggle_layer_grad m s ls n g \<noteq> Inl (AssertionError, g')"
  by (auto simp: toggle_layer_grad_def Let_def split: option.splits layers_spec.splits)

text \<open>
  With a pair as \<^verbatim>\<open>self.n_layers_to_train\<close> the second loop of \<^verbatim>\<open>toggle_layer_grad\<close> is
  never entered: a call that gets past its guard raises while evaluating the loop's
  iterable. So a call that returns has changed nothing, and no call switches a flag on.
\<close>

lemma toggle_layer_grad_tuple_returns_unchanged:
  "toggle_layer_grad m (SpecTuple a b) ls n g = Inr g' \<Longrightarrow> g' = g"
  by (auto simp: toggle_layer_grad_def Let_def split: if_splits option.splits)

lemma select_layers_tuple_returns_unchanged:
  "select_layers m (SpecTuple e d) g = Inr g' \<Longrightarrow> g' = g"
  by (auto simp: select_layers_def Let_def split: if_splits sum.splits
      dest: toggle_layer_grad_tuple_returns_unchanged)

lemma toggle_layer_grad_tuple_never_enables:
  "final_grads (toggle_layer_grad m (SpecTuple a b) ls n g) p \<Longrightarrow> g p"
  by (auto simp: toggle_layer_grad_def Let_def final_grads_def set_layers_apply
      split: if_splits option.splits)

text \<open>
  The integer branch asks \<^verbatim>\<open>toggle_layer_grad\<close> for \<open>max (n - D) 0\<close> encoder layers and
  \<open>min n D\<close> decoder layers, and the two requests add up to \<open>n\<close>.
\<close>

lemma select_layers_int_requested_counts:
  assumes "0 < n"
    and "n \<le> int (length (encoder_block m)) + int (length (decoder_block m))"
  shows "select_layers m (SpecInt n) g =
           (case toggle_layer_grad m (SpecInt n) (encoder_block m)
                   (max (n - int (length (decoder_block m))) 0) g of
              Inl e \<Rightarrow> Inl e
            | Inr g1 \<Rightarrow>
                toggle_layer_grad m (SpecInt n) (decoder_block m)
                  (min n (int (length (decoder_block m)))) g1)"
proof -
  have "(if n < int (length (decoder_block m)) then n else int (length (decoder_block m)))
          = min n (int (length (decoder_block m)))"
    by (simp add: min_def)
  then show ?thesis
    using assms by (simp add: select_layers_def Let_def)
qed

lemma requested_counts_sum:
  "min n (int (length (decoder_block m))) + max (n - int (length (decoder_block m))) 0 = n"
  by (simp add: min_def max_def)

section \<open>Pair requests\<close>

text \<open>
  Claim C1. For a pair \<open>(e, d)\<close> within the layer counts the selector is to leave exactly
  the last \<open>e\<close> encoder layers and the last \<open>d\<close> decoder layers trainable and all other
  layers frozen. The code at the pair \<open>(1, 1)\<close> on the model with two encoder and three
  decoder layers, all flags set as on a fresh model: the encoder call freezes the first
  encoder layer and then raises \<^verbatim>\<open>AttributeError\<close> on
  \<^verbatim>\<open>self.model.base_model.encoder.layer\<close>; the decoder call is never made, so decoder
  layers 2 and 3 keep their flags, and the constructor does not return.
\<close>

theorem C1_pair_spec_raises_after_partial_freeze:
  "select_layers tiny_t5 (SpecTuple 1 1) requires_grad_default
     = Inl (AttributeError, requires_grad_default(0 := False))"
  by (simp add: select_layers_def toggle_layer_grad_def tiny_t5_def slice_to_def Let_def)

text \<open>
  Where the attribute chain exists, the same request fails one step later, on the unary
  minus applied to the pair.
\<close>

lemma pair_spec_with_layer_attribute_raises:
  "select_layers tiny_with_layer (SpecTuple 1 1) requires_grad_default
     = Inl (TypeError, requires_grad_default(0 := False))"
  by (simp add: select_layers_def toggle_layer_grad_def tiny_t5_def tiny_with_layer_def
      slice_to_def Let_def)

text \<open>
  Claim C5. A count of \<open>-1\<close> for a section is to mark every layer of that section trainable.
  \<^verbatim>\<open>toggle_layer_grad\<close> does replace \<open>-1\<close> by the length of the section
  (\<open>toggle_layer_grad_sentinel\<close>), but the loop that would switch the layers on is not
  reached. The code at the pair \<open>(-1, -1)\<close>, the default of \<^verbatim>\<open>T5Autoencoder\<close>, on a store
  with every flag off: it raises with every flag still off, \<^verbatim>\<open>AttributeError\<close> where
  \<^verbatim>\<open>encoder.layer\<close> is missing and \<^verbatim>\<open>TypeError\<close> where it exists.
\<close>

theorem C5_sentinel_pair_raises_nothing_enabled:
  "select_layers tiny_t5 (SpecTuple (- 1) (- 1)) all_frozen = Inl (AttributeError, all_frozen) \<and>
   select_layers tiny_with_layer (SpecTuple (- 1) (- 1)) all_frozen = Inl (TypeError, all_frozen)"
  by (simp add: select_layers_def toggle_layer_grad_def tiny_t5_def tiny_with_layer_def
      slice_to_def Let_def)

text \<open>
  Claim C6. A pair \<open>(e, d)\<close> with \<open>e\<close> above the number of encoder layers or \<open>d\<close> above
  the number of decoder layers fails an assertion with the store untouched; a pair within
  both bounds never fails an assertion.
\<close>

theorem C6_pair_spec_bounds_checked_before_toggling:
  "(int (length (encoder_block m)) < e \<or> int (length (decoder_block m)) < d \<longrightarrow>
      select_layers m (SpecTuple e d) g = Inl (AssertionError, g)) \<and>
   (e \<le> int (length (encoder_block m)) \<and> d \<le> int (length (decoder_block m)) \<longrightarrow>
      (\<forall>g'. select_layers m (SpecTuple e d) g \<noteq> Inl (AssertionError, g')))"
proof (intro conjI impI allI)
  assume "int (length (encoder_block m)) < e \<or> int (length (decoder_block m)) < d"
  then show "select_layers m (SpecTuple e d) g = Inl (AssertionError, g)"
    by (auto simp: select_layers_def Let_def)
next
  fix g'
  assume ok: "e \<le> int (length (encoder_block m)) \<and> d \<le> int (length (decoder_block m))"
  show "select_layers m (SpecTuple e d) g \<noteq> Inl (AssertionError, g')"
  proof (cases "toggle_layer_grad m (SpecTuple e d) (encoder_block m) e g")
    case (Inl x)
    then have "x \<noteq> (AssertionError, g')"
      using toggle_layer_grad_no_assertion by metis
    with Inl ok show ?thesis by (simp add: select_layers_def Let_def)
  next
    case (Inr g1)
    with ok show ?thesis
      by (simp add: select_layers_def Let_def toggle_layer_grad_no_assertion)
  qed
qed

theorem C6_witness:
  "(int (length (encoder_block tiny_t5)) < 3 \<or> int (length (decoder_block tiny_t5)) < 1) \<and>
   select_layers tiny_t5 (SpecTuple 3 1) requires_grad_default
      = Inl (AssertionError, requires_grad_default) \<and>
   (1 \<le> int (length (encoder_block tiny_t5)) \<and> 1 \<le> int (length (decoder_block tiny_t5))) \<and>
   select_layers tiny_t5 (SpecTuple 1 1) requires_grad_default
      \<noteq> Inl (AssertionError, requires_grad_default)"
proof -
  have h1: "int (length (encoder_block tiny_t5)) < 3 \<or> int (length (decoder_block tiny_t5)) < 1"
    by (simp add: tiny_t5_def)
  have h2: "1 \<le> int (length (encoder_block tiny_t5)) \<and> 1 \<le> int (length (decoder_block tiny_t5))"
    by (simp add: tiny_t5_def)
  from h1 h2 C6_pair_spec_bounds_checked_before_toggling [of tiny_t5 3 1 requires_grad_default] C6_pair_spec_bounds_checked_before_toggling [of tiny_t5 1 1 requires_grad_default]
  show ?thesis by blast
qed

text \<open>
  Claim C9. \<^verbatim>\<open>toggle_layer_grad\<close> with a count that is zero or negative and not \<open>-1\<close>
  returns the store unchanged. Hence, on a model whose layers own their parameters, the
  pair \<open>(0, d)\<close> leaves every flag of every encoder-layer parameter as it was, whether the
  decoder call returns or raises; and a pair of such counts passes both assertions and
  returns the store unchanged.
\<close>

theorem C9_nonpositive_count_is_noop:
  "(n \<le> 0 \<and> n \<noteq> - 1 \<longrightarrow> toggle_layer_grad m s ls n g = Inr g) \<and>
   (layers_own_parameters m \<longrightarrow>
      (\<forall>p. p \<in> set (concat (encoder_block m)) \<longrightarrow>
         final_grads (select_layers m (SpecTuple 0 d) g) p = g p)) \<and>
   (e \<le> 0 \<and> e \<noteq> - 1 \<and> d' \<le> 0 \<and> d' \<noteq> - 1 \<longrightarrow>
      select_layers m (SpecTuple e d') g = Inr g)"
proof (intro conjI impI allI)
  assume "n \<le> 0 \<and> n \<noteq> - 1"
  then show "toggle_layer_grad m s ls n g = Inr g"
    by (simp add: toggle_layer_grad_noop)
next
  fix p
  assume own: "layers_own_parameters m" and p: "p \<in> set (concat (encoder_block m))"
  then have notdec: "p \<notin> set (concat (decoder_block m))"
    by (auto simp: layers_own_parameters_def)
  have enc: "toggle_layer_grad m (SpecTuple 0 d) (encoder_block m) 0 g = Inr g"
    by (simp add: toggle_layer_grad_noop)
  show "final_grads (select_layers m (SpecTuple 0 d) g) p = g p"
  proof (cases "d \<le> int (length (decoder_block m))")
    case True
    then have "select_layers m (SpecTuple 0 d) g
                 = toggle_layer_grad m (SpecTuple 0 d) (decoder_block m) d g"
      by (simp add: select_layers_def Let_def enc)
    then show ?thesis
      using toggle_layer_grad_tuple_frame [OF notdec] by simp
  next
    case False
    then show ?thesis by (simp add: select_layers_def Let_def final_grads_def)
  qed
next
  assume "e \<le> 0 \<and> e \<noteq> - 1 \<and> d' \<le> 0 \<and> d' \<noteq> - 1"
  then show "select_layers m (SpecTuple e d') g = Inr g"
    by (simp add: select_layers_def Let_def toggle_layer_grad_noop)
qed

theorem C9_witness:
  "toggle_layer_grad tiny_t5 (SpecTuple 0 2) (encoder_block tiny_t5) 0 requires_grad_default
     = Inr requires_grad_default \<and>
   toggle_layer_grad tiny_t5 (SpecTuple (- 5) 2) (encoder_block tiny_t5) (- 5) requires_grad_default
     = Inr requires_grad_default \<and>
   layers_own_parameters tiny_t5 \<and>
   list_all (trainable_layer (final_grads (select_layers tiny_t5 (SpecTuple 0 2) requires_grad_default)))
     (encoder_block tiny_t5) \<and>
   select_layers tiny_t5 (SpecTuple (- 2) (- 7)) requires_grad_default = Inr requires_grad_default"
proof -
  have own: "layers_own_parameters tiny_t5"
    by (simp add: layers_own_parameters_def tiny_t5_def)
  have enc: "set (concat (encoder_block tiny_t5)) = {0, 1}"
    by (auto simp: tiny_t5_def)
  have a: "toggle_layer_grad tiny_t5 (SpecTuple 0 2) (encoder_block tiny_t5) 0 requires_grad_default
     = Inr requires_grad_default"
    using C9_nonpositive_count_is_noop [of 0 tiny_t5 "SpecTuple 0 2" "encoder_block tiny_t5" requires_grad_default] by simp
  have b: "toggle_layer_grad tiny_t5 (SpecTuple (- 5) 2) (encoder_block tiny_t5) (- 5) requires_grad_default
     = Inr requires_grad_default"
    using C9_nonpositive_count_is_noop [of "- 5" tiny_t5 "SpecTuple (- 5) 2" "encoder_block tiny_t5" requires_grad_default]
    by simp
  have c: "final_grads (select_layers tiny_t5 (SpecTuple 0 2) requires_grad_default) p
             = requires_grad_default p" if "p \<in> {0, 1}" for p
    using C9_nonpositive_count_is_noop [of 0 tiny_t5 SpecNone "[]" requires_grad_default 2 0 0] own enc that by blast
  have c': "list_all (trainable_layer (final_grads (select_layers tiny_t5 (SpecTuple 0 2) requires_grad_default)))
     (encoder_block tiny_t5)"
    using c [of 0] c [of 1] by (simp add: trainable_layer_def tiny_t5_def requires_grad_default_def)
  have d: "select_layers tiny_t5 (SpecTuple (- 2) (- 7)) requires_grad_default = Inr requires_grad_default"
    using C9_nonpositive_count_is_noop [of 0 tiny_t5 SpecNone "[]" requires_grad_default 0 "- 2" "- 7"] by simp
  from a b own c' d show ?thesis by blast
qed

section \<open>Integer and absent requests\<close>

text \<open>
  Claim C2. For an integer \<open>n\<close> with \<open>0 < n\<close> and \<open>n\<close> at most the total layer count the
  selector is to leave \<open>min n D\<close> decoder layers and \<open>max (n - D) 0\<close> encoder layers
  trainable, \<open>n\<close> in all; with 2 encoder layers, 3 decoder layers and \<open>n = 4\<close>, three
  decoder layers and one encoder layer. The requested counts are these
  (\<open>select_layers_int_requested_counts\<close>), but the code at that input on the model without
  \<^verbatim>\<open>encoder.layer\<close> freezes the first encoder layer and raises \<^verbatim>\<open>AttributeError\<close> before
  the decoder is touched.
\<close>

theorem C2_int_spec_raises_after_partial_freeze:
  "select_layers tiny_t5 (SpecInt 4) requires_grad_default
     = Inl (AttributeError, requires_grad_default(0 := False))"
  by (simp add: select_layers_def toggle_layer_grad_def tiny_t5_def slice_to_def Let_def)

text \<open>
  Where \<^verbatim>\<open>base_model.encoder.layer\<close> exists and is the encoder stack, the same request
  returns, and both calls switch on the last four layers of that stack, that is both
  encoder layers: started with every flag off, two encoder layers and no decoder layer
  end up trainable.
\<close>

lemma int_spec_with_layer_attribute_enables_encoder_stack:
  "select_layers tiny_with_layer (SpecInt 4) all_frozen
     = Inr (all_frozen(0 := True, 1 := True))"
  by (auto simp: select_layers_def toggle_layer_grad_def tiny_t5_def tiny_with_layer_def
      slice_to_def slice_from_def Let_def all_frozen_def)

text \<open>
  Claim C3. An integer request \<open>n\<close> larger than the number of encoder layers plus the
  number of decoder layers fails the assertion, and the store of trainable flags at the
  raise is the store the selector was given: no flag has been written.
\<close>

theorem C3_int_spec_exceeding_total_fails_unchanged:
  assumes "int (length (encoder_block m)) + int (length (decoder_block m)) < n"
  shows "select_layers m (SpecInt n) g = Inl (AssertionError, g)"
proof -
  have "0 < n" using assms by linarith
  then show ?thesis using assms by (simp add: select_layers_def Let_def)
qed

theorem C3_witness:
  "int (length (encoder_block tiny_t5)) + int (length (decoder_block tiny_t5)) < 6 \<and>
   select_layers tiny_t5 (SpecInt 6) requires_grad_default
     = Inl (AssertionError, requires_grad_default)"
proof -
  have h: "int (length (encoder_block tiny_t5)) + int (length (decoder_block tiny_t5)) < 6"
    by (simp add: tiny_t5_def)
  show ?thesis
    using h C3_int_spec_exceeding_total_fails_unchanged [OF h, of requires_grad_default]
    by simp
qed

text \<open>
  Claim C4. For a request that is absent, zero or a negative integer the selector returns,
  every parameter of \<^verbatim>\<open>model.parameters()\<close> has its flag off afterwards, no other cell of
  the store is written, and, as \<^verbatim>\<open>model.parameters()\<close> reaches the parameters of the
  layers, every encoder and decoder layer is frozen.
\<close>

theorem C4_nonpositive_or_absent_spec_freezes_all:
  assumes "s = SpecNone \<or> (\<exists>n. s = SpecInt n \<and> n \<le> 0)"
  shows "\<exists>g'. select_layers m s g = Inr g' \<and>
           list_all (\<lambda>p. \<not> g' p) (parameters m) \<and>
           (\<forall>p. p \<notin> set (parameters m) \<longrightarrow> g' p = g p) \<and>
           (parameters_cover_layers m \<longrightarrow>
              list_all (frozen_layer g') (encoder_block m) \<and>
              list_all (frozen_layer g') (decoder_block m))"
proof -
  let ?g = "set_requires_grad False (parameters m) g"
  have ret: "select_layers m s g = Inr ?g"
    using assms by (auto simp: select_layers_def Let_def)
  have off: "list_all (\<lambda>p. \<not> ?g p) (parameters m)"
    by (simp add: list_all_iff set_requires_grad_apply)
  have frame: "\<forall>p. p \<notin> set (parameters m) \<longrightarrow> ?g p = g p"
    by (simp add: set_requires_grad_apply)
  have layers: "list_all (frozen_layer ?g) (encoder_block m) \<and>
                list_all (frozen_layer ?g) (decoder_block m)"
    if "parameters_cover_layers m"
    using that
    by (auto simp: parameters_cover_layers_def frozen_layer_def list_all_iff
        set_requires_grad_apply)
  from ret off frame layers show ?thesis by blast
qed

theorem C4_witness:
  "parameters_cover_layers tiny_t5 \<and>
   (\<exists>g'. select_layers tiny_t5 (SpecInt 0) requires_grad_default = Inr g' \<and>
      list_all (\<lambda>p. \<not> g' p) (parameters tiny_t5) \<and>
      list_all (frozen_layer g') (encoder_block tiny_t5) \<and>
      list_all (frozen_layer g') (decoder_block tiny_t5)) \<and>
   (\<exists>g'. select_layers tiny_t5 SpecNone requires_grad_default = Inr g' \<and>
      list_all (frozen_layer g') (encoder_block tiny_t5) \<and>
      list_all (frozen_layer g') (decoder_block tiny_t5))"
proof -
  have cover: "parameters_cover_layers tiny_t5"
    by (simp add: parameters_cover_layers_def tiny_t5_def)
  have h0: "SpecInt 0 = SpecNone \<or> (\<exists>n. SpecInt 0 = SpecInt n \<and> n \<le> 0)" by simp
  have hN: "SpecNone = SpecNone \<or> (\<exists>n. SpecNone = SpecInt n \<and> n \<le> 0)" by simp
  from cover C4_nonpositive_or_absent_spec_freezes_all [OF h0, of tiny_t5 requires_grad_default]
    C4_nonpositive_or_absent_spec_freezes_all [OF hN, of tiny_t5 requires_grad_default]
  show ?thesis by blast
qed

section \<open>Keyword expansion\<close>

lemma keyword_items_map:
  "keyword_items items = Some kws \<Longrightarrow> items = map str_key kws"
proof (induction items arbitrary: kws)
  case Nil
  then show ?case by simp
next
  case (Cons kv items)
  obtain k v where kv: "kv = (k, v)" by (cases kv)
  from Cons.prems kv obtain name rest where
    k: "k = PyStr name" and rest: "keyword_items items = Some rest" and kws: "kws = (name, v) # rest"
    by (cases k) (auto split: option.splits)
  from Cons.IH [OF rest] kv k kws show ?case by (simp add: str_key_def)
qed


section \<open>Merging the training arguments\<close>




lemma setattr_read_only_raises:
  "name \<in> set (read_only obj) \<Longrightarrow>
     get_trainer_training_args obj (PyDict ((PyStr name, v) # items)) = Inl AttributeError"
  by (simp add: get_trainer_training_args_def truthy_def setattr_def)




section \<open>The arguments of the T5 constructor\<close>

lemma AbstractTransformerAutoencoder_init_returns:
  assumes "AbstractTransformerAutoencoder_init get_model dataset model_name model_config_dict
             training_args_dict block_size train_pct n_layers_to_train g = Inr (a, g')"
  shows "model_config_dict = PyDict (map str_key (self_config a)) \<and>
         self_block_size a = block_size \<and>
         self_model a = get_model (self_config a)"
proof (cases model_config_dict)
  case (PyDict items)
  with assms obtain kwargs where kw: "keyword_items items = Some kwargs"
    by (auto simp: AbstractTransformerAutoencoder_init_def split: option.splits)
  with assms PyDict have "self_config a = kwargs" "self_block_size a = block_size"
    "self_model a = get_model kwargs"
    by (auto simp: AbstractTransformerAutoencoder_init_def split: sum.splits)
  with keyword_items_map [OF kw] PyDict show ?thesis by simp
qed (use assms in \<open>simp_all add: AbstractTransformerAutoencoder_init_def\<close>)

text \<open>
  Claim C10. \<^verbatim>\<open>T5Autoencoder.__init__\<close> hands its \<^verbatim>\<open>block_size\<close> to the base constructor
  in the position of \<^verbatim>\<open>model_config_dict\<close> and its \<^verbatim>\<open>ds_limit\<close> in the position of
  \<^verbatim>\<open>block_size\<close>. With an integer \<^verbatim>\<open>block_size\<close>, and so with the defaults, the expansion
  \<^verbatim>\<open>**model_config_dict\<close> raises \<^verbatim>\<open>TypeError\<close> before any flag is written; and whenever
  the constructor returns, the value given as \<^verbatim>\<open>block_size\<close> was a dictionary, the
  configuration was built from it, and \<^verbatim>\<open>self.block_size\<close> is \<^verbatim>\<open>ds_limit\<close>.
\<close>

theorem C10_t5_forwards_block_size_as_config:
  "T5Autoencoder_init get_model data_dir model_name (PyInt n) training_args_dict ds_limit
       train_pct n_layers_to_train g = Inl (TypeError, g) \<and>
   T5Autoencoder_default get_model data_dir g = Inl (TypeError, g) \<and>
   (\<forall>a g'. T5Autoencoder_init get_model data_dir model_name block_size training_args_dict
              ds_limit train_pct n_layers_to_train g = Inr (a, g') \<longrightarrow>
      block_size = PyDict (map str_key (self_config a)) \<and>
      self_block_size a = ds_limit \<and>
      self_model a = get_model (self_config a))"
proof (intro conjI allI impI)
  show "T5Autoencoder_init get_model data_dir model_name (PyInt n) training_args_dict ds_limit
       train_pct n_layers_to_train g = Inl (TypeError, g)"
    by (simp add: T5Autoencoder_init_def AbstractTransformerAutoencoder_init_def)
  show "T5Autoencoder_default get_model data_dir g = Inl (TypeError, g)"
    by (simp add: T5Autoencoder_default_def T5Autoencoder_init_def
        AbstractTransformerAutoencoder_init_def)
next
  fix a g'
  assume "T5Autoencoder_init get_model data_dir model_name block_size training_args_dict
              ds_limit train_pct n_layers_to_train g = Inr (a, g')"
  then have r: "AbstractTransformerAutoencoder_init get_model data_dir model_name block_size
                  training_args_dict ds_limit train_pct n_layers_to_train g = Inr (a, g')"
    by (simp add: T5Autoencoder_init_def)
  from AbstractTransformerAutoencoder_init_returns [OF r]
  show "block_size = PyDict (map str_key (self_config a))"
    and "self_block_size a = ds_limit"
    and "self_model a = get_model (self_config a)"
    by simp_all
qed

theorem C10_witness:
  "T5Autoencoder_default (\<lambda>kwargs. tiny_t5) (PyStr ''data'') requires_grad_default
     = Inl (TypeError, requires_grad_default) \<and>
   (\<exists>a g'. T5Autoencoder_init (\<lambda>kwargs. tiny_t5) (PyStr ''data'') (PyStr ''t5-base'')
              (PyDict [(PyStr ''num_layers'', PyInt 2)]) PyNone (PyInt 100) (PyFloat (1 / 2)) SpecNone
              requires_grad_default = Inr (a, g') \<and>
            self_config a = [(''num_layers'', PyInt 2)] \<and> self_block_size a = PyInt 100)"
proof -
  have ret: "\<exists>a g'. T5Autoencoder_init (\<lambda>kwargs. tiny_t5) (PyStr ''data'') (PyStr ''t5-base'')
              (PyDict [(PyStr ''num_layers'', PyInt 2)]) PyNone (PyInt 100) (PyFloat (1 / 2)) SpecNone
              requires_grad_default = Inr (a, g')"
    by (simp add: T5Autoencoder_init_def AbstractTransformerAutoencoder_init_def
        select_layers_def)
  then obtain a g' where r: "T5Autoencoder_init (\<lambda>kwargs. tiny_t5) (PyStr ''data'') (PyStr ''t5-base'')
              (PyDict [(PyStr ''num_layers'', PyInt 2)]) PyNone (PyInt 100) (PyFloat (1 / 2)) SpecNone
              requires_grad_default = Inr (a, g')"
    by blast
  from C10_t5_forwards_block_size_as_config [of "\<lambda>kwargs. tiny_t5" "PyStr ''data''" "PyStr ''t5-base''" 0 PyNone "PyInt 100"
      "PyFloat (1 / 2)" SpecNone requires_grad_default "PyDict [(PyStr ''num_layers'', PyInt 2)]"] r
  have cfg: "PyDict [(PyStr ''num_layers'', PyInt 2)]
               = PyDict (map str_key (self_config a))"
    and bs: "self_block_size a = PyInt 100"
    by blast+
  from cfg have "self_config a = [(''num_layers'', PyInt 2)]"
    by (cases "self_config a") (auto simp: str_key_def)
  moreover have "T5Autoencoder_default (\<lambda>kwargs. tiny_t5) (PyStr ''data'') requires_grad_default
     = Inl (TypeError, requires_grad_default)"
    using C10_t5_forwards_block_size_as_config [of "\<lambda>kwargs. tiny_t5" "PyStr ''data''" "PyStr ''t5-base''" 0 PyNone "PyInt 100"
      "PyFloat (1 / 2)" SpecNone requires_grad_default PyNone] by blast
  ultimately show ?thesis using r bs by blast
qed

section \<open>The sizes of the split and the partition\<close>

lemma float_value_fraction:
  assumes "exponent x < 0"
  shows "float_value x = real (mantissa x) / 2 ^ nat (- exponent x)"
  using assms by (simp add: float_value_def power_int_def field_simps)

lemma fraction_exponent_negative:
  assumes "0 < float_value p" and "float_value p < 1"
  shows "exponent p < 0"
proof (rule ccontr)
  assume "\<not> exponent p < 0"
  then have e: "0 \<le> exponent p" by simp
  then have v: "float_value p = real (mantissa p) * 2 ^ nat (exponent p)"
    by (simp add: float_value_def power_int_def)
  with assms(1) have "0 < mantissa p"
    by (cases "mantissa p = 0") simp_all
  then have "1 \<le> real (mantissa p)" by simp
  moreover have "(1::real) \<le> 2 ^ nat (exponent p)" by simp
  ultimately have "1 * 1 \<le> real (mantissa p) * 2 ^ nat (exponent p)"
    by (intro mult_mono) simp_all
  with v assms(2) show False by simp
qed

lemma floor_product:
  assumes "exponent p < 0"
  shows "\<lfloor>real N * float_value p\<rfloor> = int ((N * mantissa p) div 2 ^ nat (- exponent p))"
proof -
  have "real N * float_value p = real (N * mantissa p) / real (2 ^ nat (- exponent p))"
    by (simp add: float_value_fraction [OF assms])
  then show ?thesis
    by (simp only: floor_divide_of_nat_eq)
qed

lemma float_of_int_exact:
  assumes "N < 2 ^ 53"
  shows "float_of_int N = Inr \<lparr> mantissa = N, exponent = 0 \<rparr>"
proof -
  have "floorlog 2 N \<le> 53"
    using assms by (intro floorlog_leI) simp_all
  then have r: "round_to_nearest_even N 0 = \<lparr> mantissa = N, exponent = 0 \<rparr>"
    by (simp add: round_to_nearest_even_def)
  have "N < (2::nat) ^ 1024"
    using assms by (rule less_trans) simp
  then show ?thesis
    by (simp add: float_of_int_def r overflows_def)
qed

lemma div_succ_le:
  fixes q k :: nat
  assumes "0 < k"
  shows "(q + 1) div k \<le> q div k + 1"
proof -
  have "(q + 1) div k \<le> (q + k) div k"
    using assms by (intro div_le_mono) simp
  also have "\<dots> = q div k + 1" using assms by simp
  finally show ?thesis .
qed

lemma int_of_float_round:
  assumes e: "e < 0" and bound: "M < 2 ^ (53 + nat (- e))"
  shows "M div 2 ^ nat (- e) \<le> int_of_float (round_to_nearest_even M e) \<and>
         int_of_float (round_to_nearest_even M e) \<le> M div 2 ^ nat (- e) + 1 \<and>
         (floorlog 2 M \<le> 53 \<longrightarrow> int_of_float (round_to_nearest_even M e) = M div 2 ^ nat (- e))"
proof (cases "floorlog 2 M \<le> 53")
  case True
  then have "round_to_nearest_even M e = \<lparr> mantissa = M, exponent = e \<rparr>"
    by (simp add: round_to_nearest_even_def)
  then have "int_of_float (round_to_nearest_even M e) = M div 2 ^ nat (- e)"
    using e by (simp add: int_of_float_def)
  then show ?thesis by simp
next
  case False
  define t where "t = nat (- e)"
  define b where "b = floorlog 2 M"
  define s where "s = b - 53"
  define q where "q = M div 2 ^ s"
  from False have b53: "53 < b" by (simp add: b_def)
  then have Mpos: "0 < M"
    by (cases "M = 0") (simp_all add: b_def floorlog_def)
  from floorlog_bounds [OF Mpos, of 2] have "2 ^ (b - 1) \<le> M"
    by (simp add: b_def)
  then have "(2::nat) ^ (b - 1) < 2 ^ (53 + t)"
    using bound unfolding t_def by (rule le_less_trans)
  then have "b - 1 < 53 + t"
    by (rule power_less_imp_less_exp [of 2, rotated]) simp
  with b53 have st: "s \<le> t" by (simp add: s_def)
  define up where
    "up = (if 2 ^ (s - 1) < M mod 2 ^ s then True
           else if M mod 2 ^ s = 2 ^ (s - 1) then odd q else False)"
  define q' where "q' = (if up then q + 1 else q)"
  have q': "q' = q \<or> q' = q + 1" by (simp add: q'_def)
  have r: "round_to_nearest_even M e = \<lparr> mantissa = q', exponent = e + int s \<rparr>"
    using False unfolding round_to_nearest_even_def Let_def q'_def up_def q_def s_def b_def
    by (simp only: if_False)
  have et: "e = - int t" using e by (simp add: t_def)
  have "int_of_float \<lparr> mantissa = q', exponent = e + int s \<rparr> = q' div 2 ^ (t - s)"
  proof (cases "s = t")
    case True
    then have "e + int s = 0" by (simp add: et)
    with True show ?thesis by (simp add: int_of_float_def)
  next
    case False
    with st have "s < t" by simp
    then have "e + int s < 0" and "nat (- (e + int s)) = t - s"
      by (simp_all add: et)
    then show ?thesis by (simp add: int_of_float_def)
  qed
  then have trunc: "int_of_float (round_to_nearest_even M e) = q' div 2 ^ (t - s)"
    by (simp only: r)
  have fl: "M div 2 ^ t = q div 2 ^ (t - s)"
    using st by (simp add: q_def div_exp_eq)
  have lo: "q div 2 ^ (t - s) \<le> q' div 2 ^ (t - s)"
    using q' by (auto intro: div_le_mono)
  have hi: "q' div 2 ^ (t - s) \<le> q div 2 ^ (t - s) + 1"
    using q' div_succ_le [of "2 ^ (t - s)" q] by auto
  from lo hi show ?thesis
    using False by (simp add: trunc fl t_def [symmetric])
qed

lemma small_truncation_no_overflow:
  assumes "int_of_float x < 2 ^ 1024"
  shows "\<not> overflows x"
proof (cases "0 \<le> exponent x")
  case True
  with assms show ?thesis by (simp add: overflows_def int_of_float_def)
next
  case False
  then show ?thesis by (simp add: overflows_def)
qed

lemma split_sizes_bounds:
  assumes frac: "0 < float_value p" "float_value p < 1" and size: "N < 2 ^ 53"
  shows "\<exists>n_train. split_sizes N p = Inr (n_train, int N - n_train) \<and>
           \<lfloor>real N * float_value p\<rfloor> \<le> n_train \<and>
           n_train \<le> \<lfloor>real N * float_value p\<rfloor> + 1 \<and>
           (floorlog 2 (N * mantissa p) \<le> 53 \<longrightarrow> n_train = \<lfloor>real N * float_value p\<rfloor>) \<and>
           0 \<le> n_train \<and> n_train \<le> int N"
proof -
  let ?t = "nat (- exponent p)"
  let ?M = "N * mantissa p"
  let ?n = "int_of_float (round_to_nearest_even ?M (exponent p))"
  have e: "exponent p < 0" using frac by (rule fraction_exponent_negative)
  have fl: "\<lfloor>real N * float_value p\<rfloor> = int (?M div 2 ^ ?t)"
    using e by (rule floor_product)
  have "real (mantissa p) / 2 ^ ?t < 1"
    using frac(2) by (simp add: float_value_fraction [OF e])
  then have "real (mantissa p) < real (2 ^ ?t)"
    by (simp add: pos_divide_less_eq)
  then have "mantissa p < 2 ^ ?t"
    by (simp only: of_nat_less_iff)
  then have "?M \<le> N * 2 ^ ?t"
    by (intro mult_le_mono2) simp
  also have "\<dots> < 2 ^ 53 * 2 ^ ?t"
    using size by simp
  finally have bound: "?M < 2 ^ (53 + ?t)"
    by (simp add: power_add)
  note rnd = int_of_float_round [OF e bound]
  have le_N: "int ?n \<le> int N"
  proof (cases "N = 0")
    case True
    then show ?thesis
      by (simp add: round_to_nearest_even_def int_of_float_def floorlog_def)
  next
    case False
    then have "real N * float_value p < real N"
      using frac by simp
    then have "\<lfloor>real N * float_value p\<rfloor> < int N"
      by (simp add: floor_less_iff)
    with fl rnd show ?thesis by linarith
  qed
  have "?n \<le> N" using le_N by simp
  also have "N < 2 ^ 1024"
    using size by (rule less_trans) simp
  finally have "\<not> overflows (round_to_nearest_even ?M (exponent p))"
    by (rule small_truncation_no_overflow)
  then have sizes: "split_sizes N p = Inr (int ?n, int N - int ?n)"
    by (simp add: split_sizes_def float_of_int_exact [OF size] float_mul_def Let_def)
  from sizes fl rnd le_N show ?thesis
    by (intro exI [of _ "int ?n"]) auto
qed

lemma random_split_runs:
  assumes "0 \<le> l1" and "l1 + l2 = int N" and "length indices = N"
  shows "random_split N (l1, l2) indices = Inr (take (nat l1) indices, drop (nat l1) indices)"
proof -
  have a: "slice_between indices 0 l1 = take (nat l1) indices"
    using assms by (simp add: slice_between_def Let_def min_def)
  have b: "slice_between indices l1 (int N) = drop (nat l1) indices"
    using assms by (simp add: slice_between_def Let_def min_def)
  have "l1 - l1 = 0" and "l1 + l2 - l2 = l1" by simp_all
  then have "random_split N (l1, l2) indices
               = Inr (slice_between indices 0 l1, slice_between indices l1 (l1 + l2))"
    using assms(2) by (simp only: random_split_def prod.case) simp
  with a b assms(2) show ?thesis by simp
qed

lemma permutation_facts:
  assumes "sort indices = [0..<N]"
  shows "length indices = N" and "distinct indices" and "set indices = {0..<N}"
proof -
  have "length (sort indices) = N" by (simp add: assms)
  then show "length indices = N" by simp
  have "distinct (sort indices)" by (simp add: assms)
  then show "distinct indices" by simp
  have "set (sort indices) = {0..<N}" by (simp add: assms)
  then show "set indices = {0..<N}" by simp
qed

text \<open>
  The product is rounded before it is cut off, and the rounding can reach the next
  integer. For ten examples and the fraction \<^verbatim>\<open>0.7\<close>, whose binary64 value lies below
  seven tenths, the exact product lies below 7 and its floor is 6, but the product
  computed is \<open>7.0\<close> and \<open>n_train\<close> is 7.
\<close>

theorem C7_counterexample_product_rounds_up:
  "is_binary64 binary64_0_7 \<and> 0 < float_value binary64_0_7 \<and> float_value binary64_0_7 < 1 \<and>
   split_sizes 10 binary64_0_7 = Inr (7, 3) \<and>
   \<lfloor>real (10::nat) * float_value binary64_0_7\<rfloor> = 6"
  by (simp add: split_sizes_def float_of_int_def round_to_nearest_even_def float_mul_def
      int_of_float_def overflows_def binary64_0_7_def is_binary64_def float_value_def
      power_int_minus Let_def compute_floorlog)

text \<open>
  Read against the decimal literal the difference goes the other way: the binary64 value
  of \<^verbatim>\<open>0.29\<close> lies below 29 hundredths, and for a hundred examples \<open>n_train\<close> is 28.
\<close>

lemma split_sizes_below_decimal_fraction:
  "split_sizes 100 binary64_0_29 = Inr (28, 72) \<and>
   \<lfloor>real (100::nat) * float_value binary64_0_29\<rfloor> = 28 \<and>
   \<lfloor>real (100::nat) * (29 / 100)\<rfloor> = 29"
  by (simp add: split_sizes_def float_of_int_def round_to_nearest_even_def float_mul_def
      int_of_float_def overflows_def binary64_0_29_def float_value_def power_int_minus
      Let_def compute_floorlog)

text \<open>
  Claim C7, amended. For a dataset of fewer than \<open>2 ^ 53\<close> examples and a binary64
  fraction \<open>p\<close> strictly between 0 and 1, \<open>n_train\<close> is the rounded product cut off: it
  is \<open>floor (N * p)\<close> or one more, and \<open>floor (N * p)\<close> when the product of \<open>N\<close> and the
  mantissa of \<open>p\<close> fits 53 bits; \<open>n_val = N - n_train\<close>, so the two sizes add up to \<open>N\<close>;
  and for every permutation the library draws, the two parts have these sizes, share no
  index and together hold every index of the dataset once.
\<close>

theorem C7_split_sizes_and_partition:
  assumes "is_binary64 p" and "0 < float_value p" and "float_value p < 1"
    and "N < 2 ^ 53"
    and "sort indices = [0..<N]"
  shows "\<exists>n_train n_val train eval.
           split_sizes N p = Inr (n_train, n_val) \<and>
           \<lfloor>real N * float_value p\<rfloor> \<le> n_train \<and>
           n_train \<le> \<lfloor>real N * float_value p\<rfloor> + 1 \<and>
           (floorlog 2 (N * mantissa p) \<le> 53 \<longrightarrow> n_train = \<lfloor>real N * float_value p\<rfloor>) \<and>
           n_val = int N - n_train \<and>
           n_train + n_val = int N \<and>
           get_trainer_split N p indices = Inr (train, eval) \<and>
           int (length train) = n_train \<and>
           int (length eval) = n_val \<and>
           distinct (train @ eval) \<and>
           set train \<inter> set eval = {} \<and>
           set train \<union> set eval = {0..<N}"
proof -
  from split_sizes_bounds [OF assms(2,3,4)] obtain n_train where
    sizes: "split_sizes N p = Inr (n_train, int N - n_train)"
    and lo: "\<lfloor>real N * float_value p\<rfloor> \<le> n_train"
    and hi: "n_train \<le> \<lfloor>real N * float_value p\<rfloor> + 1"
    and exact: "floorlog 2 (N * mantissa p) \<le> 53 \<longrightarrow> n_train = \<lfloor>real N * float_value p\<rfloor>"
    and nonneg: "0 \<le> n_train" and le: "n_train \<le> int N"
    by blast
  note perm = permutation_facts [OF assms(5)]
  let ?train = "take (nat n_train) indices"
  let ?eval = "drop (nat n_train) indices"
  have split: "get_trainer_split N p indices = Inr (?train, ?eval)"
    using random_split_runs [OF nonneg _ perm(1), of "int N - n_train"]
    by (simp add: get_trainer_split_def sizes)
  have len_t: "int (length ?train) = n_train"
    using nonneg le perm(1) by simp
  have len_e: "int (length ?eval) = int N - n_train"
    using nonneg le perm(1) by simp
  have whole: "?train @ ?eval = indices" by simp
  have dist: "distinct (?train @ ?eval)"
    using perm(2) by (simp only: whole)
  have disj: "set ?train \<inter> set ?eval = {}"
    using dist by (simp only: distinct_append)
  have cover: "set ?train \<union> set ?eval = {0..<N}"
    using perm(3) by (metis set_append whole)
  from sizes lo hi exact split len_t len_e dist disj cover show ?thesis
    by (intro exI [of _ n_train] exI [of _ "int N - n_train"] exI [of _ ?train]
        exI [of _ ?eval]) simp
qed

theorem C7_witness:
  "is_binary64 binary64_0_8 \<and> 0 < float_value binary64_0_8 \<and> float_value binary64_0_8 < 1 \<and>
   (10::nat) < 2 ^ 53 \<and> sort [3, 1, 4, 0, 9, 2, 6, 5, 8, 7] = [0..<10] \<and>
   split_sizes 10 binary64_0_8 = Inr (8, 2) \<and>
   \<lfloor>real (10::nat) * float_value binary64_0_8\<rfloor> = 8 \<and>
   get_trainer_split 10 binary64_0_8 [3, 1, 4, 0, 9, 2, 6, 5, 8, 7]
     = Inr ([3, 1, 4, 0, 9, 2, 6, 5], [8, 7])"
proof -
  have h1: "is_binary64 binary64_0_8"
    by (simp add: is_binary64_def binary64_0_8_def)
  have h2: "0 < float_value binary64_0_8" and h3: "float_value binary64_0_8 < 1"
    by (simp_all add: float_value_def binary64_0_8_def power_int_minus)
  have h4: "(10::nat) < 2 ^ 53" by simp
  have h5: "sort [3, 1, 4, 0, 9, 2, 6, 5, 8, 7] = [0..<10]" by code_simp
  have fl: "\<lfloor>real (10::nat) * float_value binary64_0_8\<rfloor> = 8"
    by (simp add: float_value_def binary64_0_8_def power_int_minus)
  from C7_split_sizes_and_partition [OF h1 h2 h3 h4 h5] obtain n_train n_val train eval where
    s: "split_sizes 10 binary64_0_8 = Inr (n_train, n_val)"
    and lo: "\<lfloor>real (10::nat) * float_value binary64_0_8\<rfloor> \<le> n_train"
    and sum: "n_train + n_val = int 10"
    and g: "get_trainer_split 10 binary64_0_8 [3, 1, 4, 0, 9, 2, 6, 5, 8, 7] = Inr (train, eval)"
    and lt: "int (length train) = n_train"
    by blast
  have s': "split_sizes 10 binary64_0_8 = Inr (8, 2)"
    by (simp add: split_sizes_def float_of_int_def round_to_nearest_even_def float_mul_def
        int_of_float_def overflows_def binary64_0_8_def Let_def compute_floorlog)
  with s have n: "n_train = 8" "n_val = 2" by simp_all
  have "get_trainer_split 10 binary64_0_8 [3, 1, 4, 0, 9, 2, 6, 5, 8, 7]
     = Inr ([3, 1, 4, 0, 9, 2, 6, 5], [8, 7])"
    by (simp add: get_trainer_split_def random_split_def slice_between_def s')
  with h1 h2 h3 h4 h5 s' fl show ?thesis by blast
qed

end
